theory Spec2Isabelle
  imports Complex_Main "HOL-Library.Sublist"
begin

section \<open>Floating-point values and their comparisons\<close>

text \<open>
  The analysis of \<^verbatim>\<open>appp.py\<close> only compares floating-point values, takes their absolute
  value and tests them for NaN; the arithmetic itself happens inside pandas and scipy.
  A value is therefore modelled by what it denotes: a finite value (an exact rational,
  which every binary64 value and every 64-bit integer is), one of the two infinities, or
  NaN. Both zeros compare equal in Python, so they are the one value \<open>Fin 0\<close>.
\<close>

datatype pyfloat = Fin rat | PInf | NInf | NaN

text \<open>Python's \<^verbatim>\<open>a < b\<close> on floats: false as soon as one side is NaN.\<close>

fun flt :: "pyfloat \<Rightarrow> pyfloat \<Rightarrow> bool" where
  "flt NaN _ = False"
| "flt _ NaN = False"
| "flt (Fin a) (Fin b) = (a < b)"
| "flt (Fin _) PInf = True"
| "flt NInf (Fin _) = True"
| "flt NInf PInf = True"
| "flt _ _ = False"

text \<open>Python's \<^verbatim>\<open>a > b\<close>.\<close>

definition fgt :: "pyfloat \<Rightarrow> pyfloat \<Rightarrow> bool" where
  "fgt a b = flt b a"

text \<open>Python's \<^verbatim>\<open>a == b\<close> on floats: NaN equals nothing, itself included.\<close>

fun feq :: "pyfloat \<Rightarrow> pyfloat \<Rightarrow> bool" where
  "feq NaN _ = False"
| "feq _ NaN = False"
| "feq a b = (a = b)"

text \<open>\<^verbatim>\<open>np.isnan\<close> and \<^verbatim>\<open>abs\<close>.\<close>

fun isnan :: "pyfloat \<Rightarrow> bool" where
  "isnan NaN = True"
| "isnan _ = False"

fun fabs :: "pyfloat \<Rightarrow> pyfloat" where
  "fabs (Fin q) = Fin \<bar>q\<bar>"
| "fabs PInf = PInf"
| "fabs NInf = PInf"
| "fabs NaN = NaN"

text \<open>
  The literals of the source. A Python literal denotes the binary64 value nearest to its
  decimal: \<^verbatim>\<open>0.5\<close> is exact, the other three are not (\<^verbatim>\<open>0.05\<close> lies just above
  \<open>1/20\<close>, \<^verbatim>\<open>0.3\<close> and \<^verbatim>\<open>0.7\<close> just below \<open>3/10\<close> and \<open>7/10\<close>).
\<close>

definition lit_0 :: pyfloat where
  "lit_0 = Fin 0"

definition lit_0_05 :: pyfloat where
  "lit_0_05 = Fin (3602879701896397 / 72057594037927936)"

definition lit_0_3 :: pyfloat where
  "lit_0_3 = Fin (5404319552844595 / 18014398509481984)"

definition lit_0_5 :: pyfloat where
  "lit_0_5 = Fin (1 / 2)"

definition lit_0_7 :: pyfloat where
  "lit_0_7 = Fin (3152519739159347 / 4503599627370496)"

section \<open>Method selection and interpretation of the coefficient\<close>

datatype corr_method = Pearson | Spearman

datatype direction_t = Positive | Negative

datatype strength_t = VeryWeak | Weak | Moderate | Strong

text \<open>
  Line 199:
  \<^verbatim>\<open>use_pearson = (not np.isnan(p_x)) and (not np.isnan(p_y)) and (p_x > 0.05) and (p_y > 0.05)\<close>
\<close>

definition use_pearson :: "pyfloat \<Rightarrow> pyfloat \<Rightarrow> bool" where
  "use_pearson p_x p_y =
     ((\<not> isnan p_x) \<and> (\<not> isnan p_y) \<and> fgt p_x lit_0_05 \<and> fgt p_y lit_0_05)"

text \<open>Line 208: \<^verbatim>\<open>direction = T["positive"] if corr > 0 else T["negative"]\<close>.\<close>

definition direction :: "pyfloat \<Rightarrow> direction_t" where
  "direction corr = (if fgt corr lit_0 then Positive else Negative)"

text \<open>Lines 211 to 219: the \<^verbatim>\<open>if/elif/else\<close> chain on \<^verbatim>\<open>abs_r = abs(corr)\<close>.\<close>

definition strength :: "pyfloat \<Rightarrow> strength_t" where
  "strength corr =
     (let abs_r = fabs corr in
      if flt abs_r lit_0_3 then VeryWeak
      else if flt abs_r lit_0_5 then Weak
      else if flt abs_r lit_0_7 then Moderate
      else Strong)"

section \<open>Data frames\<close>

text \<open>
  A column of numeric dtype (\<^verbatim>\<open>int64\<close>, \<^verbatim>\<open>float64\<close>) is an array of numbers: its
  cells are \<open>Num\<close>. A column of dtype \<^verbatim>\<open>object\<close> is an array of Python objects: its
  cells are Python ints, Python floats and texts. A missing cell is the number NaN (this
  is what \<^verbatim>\<open>read_csv\<close>, \<^verbatim>\<open>read_excel\<close> and \<^verbatim>\<open>errors="coerce"\<close> produce). A data frame
  is the list of its labelled columns, in order; labels may repeat, which is what
  \<^verbatim>\<open>df[[col_x, col_y]]\<close> produces when both labels are the same.
\<close>

datatype cell = Num pyfloat | PyInt int | PyFloat pyfloat | Txt string

text \<open>The dtype of a column is numeric when all its cells are numbers of an array.\<close>

fun is_num :: "cell \<Rightarrow> bool" where
  "is_num (Num _) = True"
| "is_num _ = False"

definition numeric_dtype :: "cell list \<Rightarrow> bool" where
  "numeric_dtype s = list_all is_num s"

type_synonym frame = "(string \<times> cell list) list"

datatype error = KeyError | TypeError | InsufficientDataError | LibraryError

text \<open>What \<^verbatim>\<open>data[label]\<close> evaluates to: a one-dimensional series or a frame.\<close>

datatype item = Series "cell list" | Frame "(string \<times> cell list) list"

definition nrows :: "frame \<Rightarrow> nat" where
  "nrows df = (case df of [] \<Rightarrow> 0 | c # _ \<Rightarrow> length (snd c))"

text \<open>All columns of a frame have the same number of rows.\<close>

definition wf_frame :: "frame \<Rightarrow> bool" where
  "wf_frame df = (\<forall>c \<in> set df. length (snd c) = nrows df)"

definition columns_named :: "frame \<Rightarrow> string \<Rightarrow> frame" where
  "columns_named df label = filter (\<lambda>c. fst c = label) df"

text \<open>
  \<^verbatim>\<open>df[[l1, l2, ...]]\<close>: the columns carrying each requested label, in the order of the
  request; \<^verbatim>\<open>KeyError\<close> when a label names no column.
\<close>

definition getitem_list :: "frame \<Rightarrow> string list \<Rightarrow> error + frame" where
  "getitem_list df labels =
     (if \<forall>l \<in> set labels. columns_named df l \<noteq> []
      then Inr (concat (map (columns_named df) labels))
      else Inl KeyError)"

text \<open>
  \<^verbatim>\<open>data[label]\<close>: \<^verbatim>\<open>KeyError\<close> when no column carries the label, the column as a series
  when exactly one does, and the sub-frame of all of them when the label is repeated.
\<close>

definition getitem :: "frame \<Rightarrow> string \<Rightarrow> error + item" where
  "getitem data label =
     (case columns_named data label of
        [] \<Rightarrow> Inl KeyError
      | [c] \<Rightarrow> Inr (Series (snd c))
      | cs \<Rightarrow> Inr (Frame cs))"

text \<open>
  \<^verbatim>\<open>data[label] = series\<close>: every column carrying the label is replaced in place; a new
  label is appended as the last column.
\<close>

definition setitem :: "frame \<Rightarrow> string \<Rightarrow> cell list \<Rightarrow> frame" where
  "setitem data label s =
     (if columns_named data label = [] then data @ [(label, s)]
      else map (\<lambda>c. if fst c = label then (label, s) else c) data)"

text \<open>\<^verbatim>\<open>pd.isna\<close> on a cell: only NaN is missing (a text or an infinity is not).\<close>

fun isna :: "cell \<Rightarrow> bool" where
  "isna (Num v) = isnan v"
| "isna (PyFloat v) = isnan v"
| "isna (PyInt _) = False"
| "isna (Txt _) = False"

text \<open>\<^verbatim>\<open>data.dropna()\<close>: the rows without a missing cell, in their order.\<close>

definition kept_rows :: "frame \<Rightarrow> nat list" where
  "kept_rows data = filter (\<lambda>i. \<forall>c \<in> set data. \<not> isna (snd c ! i)) [0..<nrows data]"

definition dropna :: "frame \<Rightarrow> frame" where
  "dropna data = map (\<lambda>c. (fst c, map (\<lambda>i. snd c ! i) (kept_rows data))) data"

section \<open>The libraries\<close>

text \<open>
  The numeric work is done by pandas and scipy, which are not part of the repository.
  They are parameters of the model: the conversion of an object array behind
  \<^verbatim>\<open>pd.to_numeric\<close>, the p-value of \<^verbatim>\<open>shapiro\<close>, the pair (coefficient, p-value) of
  \<^verbatim>\<open>pearsonr\<close> and \<^verbatim>\<open>spearmanr\<close>, and the pair (slope, intercept) of
  \<^verbatim>\<open>linregress\<close>. Each scipy function may raise.

  pandas converts an object array as a whole: it parses the texts (with
  \<^verbatim>\<open>errors="coerce"\<close> a text that is no number becomes NaN) and then stores all
  elements in one numeric dtype, so the number stored for one cell depends on the other
  cells (an int beside a float is stored as a float). \<open>convert_object lib s c\<close> is the
  number stored for the cell \<open>c\<close> of the object array \<open>s\<close>; nothing is assumed of it.
\<close>

record library =
  convert_object :: "cell list \<Rightarrow> cell \<Rightarrow> pyfloat"
  shapiro :: "pyfloat list \<Rightarrow> error + pyfloat"
  pearsonr :: "pyfloat list \<Rightarrow> pyfloat list \<Rightarrow> error + (pyfloat \<times> pyfloat)"
  spearmanr :: "pyfloat list \<Rightarrow> pyfloat list \<Rightarrow> error + (pyfloat \<times> pyfloat)"
  linregress :: "pyfloat list \<Rightarrow> pyfloat list \<Rightarrow> error + (pyfloat \<times> pyfloat)"

text \<open>The calls made to scipy, in the order they are made.\<close>

datatype call = CallShapiro | CallPearsonr | CallSpearmanr | CallLinregress

section \<open>Numeric coercion\<close>

text \<open>
  \<^verbatim>\<open>pd.to_numeric(arg, errors="coerce")\<close> on a series: pandas returns the values of
  a series of numeric dtype as they are, and converts a series of dtype object as a
  whole. The result has one number for each cell of the argument.
\<close>

definition numeric_values :: "library \<Rightarrow> cell list \<Rightarrow> cell list" where
  "numeric_values lib s =
     (if numeric_dtype s then s else map (\<lambda>c. Num (convert_object lib s c)) s)"

text \<open>
  On a frame (an argument of two dimensions) \<^verbatim>\<open>pd.to_numeric\<close> raises
  \<^verbatim>\<open>TypeError\<close>.
\<close>

fun to_numeric :: "library \<Rightarrow> item \<Rightarrow> error + cell list" where
  "to_numeric lib (Series s) = Inr (numeric_values lib s)"
| "to_numeric lib (Frame _) = Inl TypeError"

text \<open>
  The statement \<^verbatim>\<open>data[c] = pd.to_numeric(data[c], errors="coerce")\<close> of lines 134,
  168 and 169: the right-hand side is evaluated first, and its exception leaves the
  frame unassigned.
\<close>

definition coerce_column :: "library \<Rightarrow> frame \<Rightarrow> string \<Rightarrow> error + frame" where
  "coerce_column lib data c =
     (case getitem data c of
        Inl e \<Rightarrow> Inl e
      | Inr it \<Rightarrow>
          (case to_numeric lib it of
             Inl e \<Rightarrow> Inl e
           | Inr s \<Rightarrow> Inr (setitem data c s)))"




section \<open>The association analysis\<close>

text \<open>
  Lines 167 to 170:
  \<^verbatim>\<open>
  data = df[[col_x, col_y]].copy()
  data[col_x] = pd.to_numeric(data[col_x], errors="coerce")
  data[col_y] = pd.to_numeric(data[col_y], errors="coerce")
  data = data.dropna()
  \<close>
\<close>

definition clean :: "library \<Rightarrow> frame \<Rightarrow> string \<Rightarrow> string \<Rightarrow> error + frame" where
  "clean lib df col_x col_y =
     (case getitem_list df [col_x, col_y] of
        Inl e \<Rightarrow> Inl e
      | Inr data0 \<Rightarrow>
          (case coerce_column lib data0 col_x of
             Inl e \<Rightarrow> Inl e
           | Inr data1 \<Rightarrow>
               (case coerce_column lib data1 col_y of
                  Inl e \<Rightarrow> Inl e
                | Inr data2 \<Rightarrow> Inr (dropna data2))))"

text \<open>
  A column of the cleaned frame as the array of numbers that scipy receives
  (\<^verbatim>\<open>np.asarray(data[col])\<close>).
\<close>

fun cell_value :: "cell \<Rightarrow> pyfloat option" where
  "cell_value (Num v) = Some v"
| "cell_value _ = None"

definition column_values :: "frame \<Rightarrow> string \<Rightarrow> error + pyfloat list" where
  "column_values data label =
     (case getitem data label of
        Inl e \<Rightarrow> Inl e
      | Inr (Frame _) \<Rightarrow> Inl TypeError
      | Inr (Series s) \<Rightarrow>
          (case those (map cell_value s) of
             None \<Rightarrow> Inl TypeError
           | Some vs \<Rightarrow> Inr vs))"

text \<open>
  Lines 178 to 188, \<^verbatim>\<open>safe_shapiro\<close>; the result is paired with the calls it made.
\<close>

definition safe_shapiro :: "library \<Rightarrow> pyfloat list \<Rightarrow> call list \<times> pyfloat" where
  "safe_shapiro lib x =
     (if length x < 3 then ([], NaN)
      else if list_all (\<lambda>v. feq v (x ! 0)) x then ([], NaN)
      else (case shapiro lib x of
              Inl e \<Rightarrow> ([CallShapiro], NaN)
            | Inr p \<Rightarrow> ([CallShapiro], p)))"

text \<open>
  \<^verbatim>\<open>Series.min()\<close> and \<^verbatim>\<open>Series.max()\<close>, which skip missing values and give NaN on
  an empty series.
\<close>

definition series_min :: "pyfloat list \<Rightarrow> pyfloat" where
  "series_min xs =
     (case filter (\<lambda>v. \<not> isnan v) xs of
        [] \<Rightarrow> NaN
      | v # vs \<Rightarrow> fold (\<lambda>w m. if flt w m then w else m) vs v)"

definition series_max :: "pyfloat list \<Rightarrow> pyfloat" where
  "series_max xs =
     (case filter (\<lambda>v. \<not> isnan v) xs of
        [] \<Rightarrow> NaN
      | v # vs \<Rightarrow> fold (\<lambda>w m. if fgt w m then w else m) vs v)"

record regression_line =
  slope :: pyfloat
  intercept :: pyfloat
  x_lo :: pyfloat
  x_hi :: pyfloat

record report =
  r_method :: corr_method
  r_corr :: pyfloat
  r_pval :: pyfloat
  r_p_x :: pyfloat
  r_p_y :: pyfloat
  r_direction :: direction_t
  r_strength :: strength_t
  r_points :: "(pyfloat \<times> pyfloat) list"
  r_line :: "regression_line option"

text \<open>
  Lines 239 to 245: the regression line, inside \<^verbatim>\<open>try: ... except Exception: pass\<close>.
\<close>

definition fit_line :: "library \<Rightarrow> pyfloat list \<Rightarrow> pyfloat list \<Rightarrow> regression_line option" where
  "fit_line lib xs ys =
     (case linregress lib xs ys of
        Inl e \<Rightarrow> None
      | Inr (sl, ic) \<Rightarrow>
          Some \<lparr>slope = sl, intercept = ic, x_lo = series_min xs, x_hi = series_max xs\<rparr>)"

text \<open>
  Lines 190 to 245, on the two cleaned series: normality, method selection, correlation,
  interpretation and regression line. An exception of \<^verbatim>\<open>pearsonr\<close> or \<^verbatim>\<open>spearmanr\<close> is
  not caught and ends the run.
\<close>

definition analyze_pair ::
  "library \<Rightarrow> pyfloat list \<Rightarrow> pyfloat list \<Rightarrow> call list \<times> (error + report)" where
  "analyze_pair lib xs ys =
     (let (t_x, p_x) = safe_shapiro lib xs;
          (t_y, p_y) = safe_shapiro lib ys;
          pearson = use_pearson p_x p_y;
          t_c = t_x @ t_y @ [if pearson then CallPearsonr else CallSpearmanr]
      in case (if pearson then pearsonr lib xs ys else spearmanr lib xs ys) of
           Inl e \<Rightarrow> (t_c, Inl e)
         | Inr (corr, pval) \<Rightarrow>
             (t_c @ [CallLinregress],
              Inr \<lparr>r_method = (if pearson then Pearson else Spearman),
                   r_corr = corr, r_pval = pval, r_p_x = p_x, r_p_y = p_y,
                   r_direction = direction corr, r_strength = strength corr,
                   r_points = zip xs ys,
                   r_line = fit_line lib xs ys\<rparr>))"

text \<open>
  Lines 166 to 245, the handler of the analysis button. \<^verbatim>\<open>st.error\<close> followed by
  \<^verbatim>\<open>st.stop()\<close> ends the run with the insufficient-data message.
\<close>

definition analyze ::
  "library \<Rightarrow> frame \<Rightarrow> string \<Rightarrow> string \<Rightarrow> call list \<times> (error + report)" where
  "analyze lib df col_x col_y =
     (case clean lib df col_x col_y of
        Inl e \<Rightarrow> ([], Inl e)
      | Inr data \<Rightarrow>
          if nrows data < 3 then ([], Inl InsufficientDataError)
          else (case column_values data col_x of
                  Inl e \<Rightarrow> ([], Inl e)
                | Inr xs \<Rightarrow>
                    (case column_values data col_y of
                       Inl e \<Rightarrow> ([], Inl e)
                     | Inr ys \<Rightarrow> analyze_pair lib xs ys)))"

section \<open>Sample libraries and data sets\<close>

text \<open>
  Concrete inputs on which the theorems below are instantiated: a library whose scipy
  functions return fixed values, the two scenarios of the specification (a linear
  relation and a constant x-series), a data set with only two complete rows, data sets
  with a single numeric column, and an object column of numbers.

  The conversion of the sample library does what pandas does on an object array of
  Python ints and floats: when all cells are ints that fit \<^verbatim>\<open>int64\<close> (or all fit
  \<^verbatim>\<open>uint64\<close>) they are stored exactly, and otherwise every cell is stored as a
  \<^verbatim>\<open>float64\<close>, an int rounded to the nearest binary64 value, ties to even. The
  sample rounds ints of magnitude below \<open>2 ^ 65\<close> (every 64-bit int) and does not
  model larger ones; it parses no text: every text becomes NaN.
\<close>

definition binary64_of_int :: "int \<Rightarrow> rat" where
  "binary64_of_int n =
     (let a = \<bar>n\<bar>;
          e = (case find (\<lambda>e. a < 2 ^ (53 + e)) [0..<12] of None \<Rightarrow> 12 | Some e \<Rightarrow> e);
          m = a div 2 ^ e;
          r = a mod 2 ^ e;
          m' = (if 2 ^ e < 2 * r \<or> (2 * r = 2 ^ e \<and> odd m) then m + 1 else m)
      in of_int ((if n < 0 then - 1 else 1) * (m' * 2 ^ e)))"

fun int_in :: "int \<Rightarrow> int \<Rightarrow> cell \<Rightarrow> bool" where
  "int_in lo hi (PyInt n) = (lo \<le> n \<and> n \<le> hi)"
| "int_in lo hi _ = False"

fun stored_exact :: "cell \<Rightarrow> pyfloat" where
  "stored_exact (PyInt n) = Fin (of_int n)"
| "stored_exact (PyFloat v) = v"
| "stored_exact (Num v) = v"
| "stored_exact (Txt _) = NaN"

fun stored_float64 :: "cell \<Rightarrow> pyfloat" where
  "stored_float64 (PyInt n) = Fin (binary64_of_int n)"
| "stored_float64 c = stored_exact c"

definition sample_convert :: "cell list \<Rightarrow> cell \<Rightarrow> pyfloat" where
  "sample_convert s c =
     (if list_all (int_in (- (2 ^ 63)) (2 ^ 63 - 1)) s \<or> list_all (int_in 0 (2 ^ 64 - 1)) s
      then stored_exact c else stored_float64 c)"

definition sample_lib :: library where
  "sample_lib =
     \<lparr>convert_object = sample_convert,
      shapiro = (\<lambda>xs. Inr (Fin (1 / 2))),
      pearsonr = (\<lambda>xs ys. Inr (Fin 1, Fin 0)),
      spearmanr = (\<lambda>xs ys. Inr (Fin (1 / 10), Fin (1 / 2))),
      linregress = (\<lambda>xs ys. Inr (Fin 2, Fin 0))\<rparr>"

definition linear_df :: frame where
  "linear_df =
     [(''x'', [Num (Fin 1), Num (Fin 2), Num (Fin 3), Num (Fin 4), Num (Fin 5)]),
      (''y'', [Num (Fin 2), Num (Fin 4), Num (Fin 6), Num (Fin 8), Num (Fin 10)])]"

definition constant_df :: frame where
  "constant_df =
     [(''x'', [Num (Fin 1), Num (Fin 1), Num (Fin 1), Num (Fin 1), Num (Fin 1)]),
      (''y'', [Num (Fin 2), Num (Fin 3), Num (Fin 1), Num (Fin 5), Num (Fin 4)])]"

definition sparse_df :: frame where
  "sparse_df =
     [(''x'', [Num (Fin 1), Num NaN, Num (Fin 3), Num NaN]),
      (''y'', [Num (Fin 2), Num (Fin 5), Num (Fin 7), Num (Fin 9)])]"

definition single_df :: frame where
  "single_df = [(''score'', [Num (Fin 1), Num (Fin 2), Num (Fin 3)])]"

definition two_rows_df :: frame where
  "two_rows_df = [(''score'', [Num (Fin 1), Num (Fin 2)])]"




section \<open>Properties of the frame operations\<close>

lemma columns_named_append:
  "columns_named (a @ b) l = columns_named a l @ columns_named b l"
  by (simp add: columns_named_def)

lemma columns_named_idem:
  "columns_named (columns_named df l) l' = (if l' = l then columns_named df l else [])"
  by (induction df) (simp_all add: columns_named_def)

lemma columns_named_fst:
  "c \<in> set (columns_named df l) \<Longrightarrow> fst c = l"
  by (simp add: columns_named_def)

lemma getitem_list_pair:
  "getitem_list df [a, b] =
     (if columns_named df a \<noteq> [] \<and> columns_named df b \<noteq> []
      then Inr (columns_named df a @ columns_named df b) else Inl KeyError)"
  by (simp add: getitem_list_def)

lemma getitem_Series:
  "getitem data l = Inr (Series s) \<longleftrightarrow> columns_named data l = [(l, s)]"
proof
  assume "getitem data l = Inr (Series s)"
  then obtain c where c: "columns_named data l = [c]" "snd c = s"
    by (auto simp: getitem_def split: list.splits)
  then have "fst c = l" using columns_named_fst [of c data l] by simp
  with c show "columns_named data l = [(l, s)]" by (cases c) simp
next
  assume "columns_named data l = [(l, s)]"
  then show "getitem data l = Inr (Series s)" by (simp add: getitem_def)
qed

lemma to_numeric_Inr:
  "to_numeric lib it = Inr s' \<longleftrightarrow> (\<exists>s. it = Series s \<and> s' = numeric_values lib s)"
  by (cases it) auto

lemma coerce_column_Inr:
  "coerce_column lib data c = Inr data' \<longleftrightarrow>
     (\<exists>s. columns_named data c = [(c, s)] \<and>
          data' = map (\<lambda>k. if fst k = c then (c, numeric_values lib s) else k) data)"
proof
  assume h: "coerce_column lib data c = Inr data'"
  then obtain it where it: "getitem data c = Inr it"
    by (auto simp: coerce_column_def split: sum.splits)
  with h obtain s' where s': "to_numeric lib it = Inr s'" "data' = setitem data c s'"
    by (auto simp: coerce_column_def split: sum.splits)
  then obtain s where s: "it = Series s" "s' = numeric_values lib s"
    by (auto simp: to_numeric_Inr)
  with it have cn: "columns_named data c = [(c, s)]" by (simp add: getitem_Series)
  then have "setitem data c s' = map (\<lambda>k. if fst k = c then (c, s') else k) data"
    by (simp add: setitem_def)
  with s' s cn show "\<exists>s. columns_named data c = [(c, s)] \<and>
          data' = map (\<lambda>k. if fst k = c then (c, numeric_values lib s) else k) data"
    by auto
next
  assume "\<exists>s. columns_named data c = [(c, s)] \<and>
          data' = map (\<lambda>k. if fst k = c then (c, numeric_values lib s) else k) data"
  then obtain s where s: "columns_named data c = [(c, s)]"
     "data' = map (\<lambda>k. if fst k = c then (c, numeric_values lib s) else k) data" by blast
  then have "getitem data c = Inr (Series s)" by (simp add: getitem_Series)
  with s show "coerce_column lib data c = Inr data'"
    by (simp add: coerce_column_def setitem_def)
qed

lemma relabel_other:
  "\<forall>k \<in> set cs. fst k \<noteq> c \<Longrightarrow> map (\<lambda>k. if fst k = c then (c, s) else k) cs = cs"
  by (induction cs) auto

lemma clean_equal_columns:
  "clean lib df c c = Inl (if columns_named df c = [] then KeyError else TypeError)"
proof (cases "columns_named df c")
  case Nil
  then show ?thesis by (simp add: clean_def getitem_list_pair)
next
  case (Cons k ks)
  have "columns_named (columns_named df c @ columns_named df c) c
          = columns_named df c @ columns_named df c"
    by (simp add: columns_named_append columns_named_idem)
  with Cons have "columns_named (columns_named df c @ columns_named df c) c = k # ks @ k # ks"
    by simp
  then have "getitem (columns_named df c @ columns_named df c) c = Inr (Frame (k # ks @ k # ks))"
    by (cases ks) (simp_all add: getitem_def)
  then have "coerce_column lib (columns_named df c @ columns_named df c) c = Inl TypeError"
    by (simp add: coerce_column_def)
  with Cons show ?thesis by (simp add: clean_def getitem_list_pair)
qed

lemma clean_Inr:
  "clean lib df col_x col_y = Inr data \<longleftrightarrow>
     col_x \<noteq> col_y \<and>
     (\<exists>sx sy. columns_named df col_x = [(col_x, sx)] \<and> columns_named df col_y = [(col_y, sy)] \<and>
        data = dropna [(col_x, numeric_values lib sx), (col_y, numeric_values lib sy)])"
proof (cases "col_x = col_y")
  case True
  then show ?thesis by (simp add: clean_equal_columns)
next
  case False
  let ?A = "columns_named df col_x" and ?B = "columns_named df col_y"
  have cnx: "columns_named (?A @ ?B) col_x = ?A"
    using False by (simp add: columns_named_append columns_named_idem)
  have lab: "\<forall>k \<in> set ?B. fst k \<noteq> col_x"
    using False by (auto dest: columns_named_fst)
  show ?thesis
  proof
    assume h: "clean lib df col_x col_y = Inr data"
    then have ne: "?A \<noteq> []" "?B \<noteq> []"
      by (auto simp: clean_def getitem_list_pair split: if_splits)
    with h obtain data1 data2 where d1: "coerce_column lib (?A @ ?B) col_x = Inr data1"
      and d2: "coerce_column lib data1 col_y = Inr data2" and d: "data = dropna data2"
      by (auto simp: clean_def getitem_list_pair split: sum.splits)
    from d1 cnx obtain sx where sx: "?A = [(col_x, sx)]"
      "data1 = map (\<lambda>k. if fst k = col_x then (col_x, numeric_values lib sx) else k) (?A @ ?B)"
      by (auto simp: coerce_column_Inr)
    with lab have data1: "data1 = (col_x, numeric_values lib sx) # ?B"
      by (simp add: relabel_other)
    then have cny: "columns_named data1 col_y = ?B"
      using False by (simp add: columns_named_def)
    with d2 obtain sy where sy: "?B = [(col_y, sy)]"
      "data2 = map (\<lambda>k. if fst k = col_y then (col_y, numeric_values lib sy) else k) data1"
      by (auto simp: coerce_column_Inr)
    with data1 False have "data2 = [(col_x, numeric_values lib sx), (col_y, numeric_values lib sy)]"
      by simp
    with sx(1) sy(1) d False show "col_x \<noteq> col_y \<and>
     (\<exists>sx sy. ?A = [(col_x, sx)] \<and> ?B = [(col_y, sy)] \<and>
        data = dropna [(col_x, numeric_values lib sx), (col_y, numeric_values lib sy)])"
      by simp
  next
    assume "col_x \<noteq> col_y \<and>
     (\<exists>sx sy. ?A = [(col_x, sx)] \<and> ?B = [(col_y, sy)] \<and>
        data = dropna [(col_x, numeric_values lib sx), (col_y, numeric_values lib sy)])"
    then obtain sx sy where s: "?A = [(col_x, sx)]" "?B = [(col_y, sy)]"
        "data = dropna [(col_x, numeric_values lib sx), (col_y, numeric_values lib sy)]"
      by blast
    have c1: "coerce_column lib [(col_x, sx), (col_y, sy)] col_x
                = Inr [(col_x, numeric_values lib sx), (col_y, sy)]"
      using False by (simp add: coerce_column_Inr columns_named_def)
    have c2: "coerce_column lib [(col_x, numeric_values lib sx), (col_y, sy)] col_y
                = Inr [(col_x, numeric_values lib sx), (col_y, numeric_values lib sy)]"
      using False by (simp add: coerce_column_Inr columns_named_def)
    show "clean lib df col_x col_y = Inr data"
      using s c1 c2 by (simp add: clean_def getitem_list_pair)
  qed
qed

lemma zip_nth_upt:
  "length xs = length ys \<Longrightarrow> zip xs ys = map (\<lambda>i. (xs ! i, ys ! i)) [0..<length xs]"
  by (rule nth_equalityI) simp_all

lemma dropna_pair:
  assumes "length sx = length sy"
  shows "dropna [(cx, sx), (cy, sy)] =
     [(cx, map fst (filter (\<lambda>(a, b). \<not> isna a \<and> \<not> isna b) (zip sx sy))),
      (cy, map snd (filter (\<lambda>(a, b). \<not> isna a \<and> \<not> isna b) (zip sx sy)))]"
proof -
  let ?good = "\<lambda>(a, b). \<not> isna a \<and> \<not> isna b"
  have k: "kept_rows [(cx, sx), (cy, sy)] =
       filter (\<lambda>i. \<not> isna (sx ! i) \<and> \<not> isna (sy ! i)) [0..<length sx]"
    by (simp add: kept_rows_def nrows_def)
  have "filter ?good (zip sx sy) =
       map (\<lambda>i. (sx ! i, sy ! i)) (filter (\<lambda>i. \<not> isna (sx ! i) \<and> \<not> isna (sy ! i)) [0..<length sx])"
    using assms by (simp add: zip_nth_upt filter_map comp_def)
  then show ?thesis using k by (simp add: dropna_def comp_def)
qed

lemma wf_column_length:
  "wf_frame df \<Longrightarrow> columns_named df l = [(l, s)] \<Longrightarrow> length s = nrows df"
proof -
  assume wf: "wf_frame df" and c: "columns_named df l = [(l, s)]"
  have "(l, s) \<in> set (columns_named df l)" using c by simp
  then have "(l, s) \<in> set df" by (simp add: columns_named_def)
  with wf show ?thesis by (auto simp: wf_frame_def)
qed

lemma those_cell_value:
  "\<forall>c \<in> set s. \<exists>v. c = Num v \<Longrightarrow> \<exists>vs. those (map cell_value s) = Some vs \<and> map Num vs = s"
  by (induction s) auto

lemma is_num_Num: "is_num c \<longleftrightarrow> (\<exists>v. c = Num v)"
  by (cases c) simp_all

lemma numeric_dtype_iff: "numeric_dtype s \<longleftrightarrow> (\<forall>c \<in> set s. \<exists>v. c = Num v)"
  by (simp add: numeric_dtype_def list_all_iff is_num_Num)

lemma length_numeric_values [simp]: "length (numeric_values lib s) = length s"
  by (simp add: numeric_values_def)

lemma numeric_values_Num: "c \<in> set (numeric_values lib s) \<Longrightarrow> \<exists>v. c = Num v"
  by (auto simp: numeric_values_def numeric_dtype_iff split: if_splits)

lemma Num_not_isna: "\<not> isna (Num v) \<longleftrightarrow> v \<noteq> NaN"
  by (cases v) simp_all

lemma column_values_first:
  assumes "cx \<noteq> cy" "\<forall>c \<in> set s. \<exists>v. c = Num v"
  shows "\<exists>vs. column_values [(cx, s), (cy, t)] cx = Inr vs \<and> map Num vs = s"
proof -
  from assms(2) obtain vs where "those (map cell_value s) = Some vs" "map Num vs = s"
    using those_cell_value by blast
  then show ?thesis using assms(1)
    by (simp add: column_values_def getitem_def columns_named_def)
qed

lemma column_values_second:
  assumes "cx \<noteq> cy" "\<forall>c \<in> set t. \<exists>v. c = Num v"
  shows "\<exists>vs. column_values [(cx, s), (cy, t)] cy = Inr vs \<and> map Num vs = t"
proof -
  from assms(2) obtain vs where "those (map cell_value t) = Some vs" "map Num vs = t"
    using those_cell_value by blast
  then show ?thesis using assms(1)
    by (simp add: column_values_def getitem_def columns_named_def)
qed

text \<open>
  The shape of a cleaned frame: two distinct labels, each naming one column of the
  source, and the rows of the two converted columns in which neither cell is missing.
\<close>

lemma cleaned_values:
  assumes wf: "wf_frame df" and cl: "clean lib df col_x col_y = Inr data"
  shows "\<exists>sx sy xs ys.
     col_x \<noteq> col_y \<and>
     getitem df col_x = Inr (Series sx) \<and> getitem df col_y = Inr (Series sy) \<and>
     length sx = nrows df \<and> length sy = nrows df \<and>
     column_values data col_x = Inr xs \<and> column_values data col_y = Inr ys \<and>
     zip (map Num xs) (map Num ys) =
       filter (\<lambda>(a, b). \<not> isna a \<and> \<not> isna b) (zip (numeric_values lib sx) (numeric_values lib sy)) \<and>
     length xs = nrows data \<and> length ys = nrows data \<and>
     NaN \<notin> set xs \<and> NaN \<notin> set ys"
proof -
  let ?good = "\<lambda>(a, b). \<not> isna a \<and> \<not> isna b"
  from cl obtain sx sy where ne: "col_x \<noteq> col_y"
    and sx: "columns_named df col_x = [(col_x, sx)]"
    and sy: "columns_named df col_y = [(col_y, sy)]"
    and d: "data = dropna [(col_x, numeric_values lib sx), (col_y, numeric_values lib sy)]"
    by (auto simp: clean_Inr)
  have lx: "length sx = nrows df" and ly: "length sy = nrows df"
    using wf sx sy by (simp_all add: wf_column_length)
  define G where "G = filter ?good (zip (numeric_values lib sx) (numeric_values lib sy))"
  have data: "data = [(col_x, map fst G), (col_y, map snd G)]"
    using d lx ly by (simp add: dropna_pair G_def)
  have Gset: "set G \<subseteq> set (zip (numeric_values lib sx) (numeric_values lib sy))"
    by (auto simp: G_def)
  have numx: "\<forall>c \<in> set (map fst G). \<exists>v. c = Num v"
  proof
    fix c assume "c \<in> set (map fst G)"
    then obtain b where "(c, b) \<in> set G" by auto
    with Gset have "(c, b) \<in> set (zip (numeric_values lib sx) (numeric_values lib sy))" by blast
    then have "c \<in> set (numeric_values lib sx)" by (rule set_zip_leftD)
    then show "\<exists>v. c = Num v" by (rule numeric_values_Num)
  qed
  have numy: "\<forall>c \<in> set (map snd G). \<exists>v. c = Num v"
  proof
    fix c assume "c \<in> set (map snd G)"
    then obtain a where "(a, c) \<in> set G" by auto
    with Gset have "(a, c) \<in> set (zip (numeric_values lib sx) (numeric_values lib sy))" by blast
    then have "c \<in> set (numeric_values lib sy)" by (rule set_zip_rightD)
    then show "\<exists>v. c = Num v" by (rule numeric_values_Num)
  qed
  from column_values_first [OF ne numx] obtain xs
    where xs: "column_values data col_x = Inr xs" "map Num xs = map fst G"
    unfolding data by blast
  from column_values_second [OF ne numy] obtain ys
    where ys: "column_values data col_y = Inr ys" "map Num ys = map snd G"
    unfolding data by blast
  have z: "zip (map Num xs) (map Num ys) = G"
    using xs(2) ys(2) by (simp add: zip_map_fst_snd)
  have len: "length xs = length G" "length ys = length G"
    using xs(2) ys(2) by (metis length_map)+
  have nr: "nrows data = length G" by (simp add: data nrows_def)
  have nanx: "NaN \<notin> set xs"
  proof
    assume "NaN \<in> set xs"
    then have "Num NaN \<in> set (map fst G)" using xs(2) by (metis imageI set_map)
    then obtain b where "(Num NaN, b) \<in> set G" by auto
    then show False by (simp add: G_def)
  qed
  have nany: "NaN \<notin> set ys"
  proof
    assume "NaN \<in> set ys"
    then have "Num NaN \<in> set (map snd G)" using ys(2) by (metis imageI set_map)
    then obtain a where "(a, Num NaN) \<in> set G" by auto
    then show False by (simp add: G_def)
  qed
  have "col_x \<noteq> col_y \<and>
     getitem df col_x = Inr (Series sx) \<and> getitem df col_y = Inr (Series sy) \<and>
     length sx = nrows df \<and> length sy = nrows df \<and>
     column_values data col_x = Inr xs \<and> column_values data col_y = Inr ys \<and>
     zip (map Num xs) (map Num ys) =
       filter ?good (zip (numeric_values lib sx) (numeric_values lib sy)) \<and>
     length xs = nrows data \<and> length ys = nrows data \<and>
     NaN \<notin> set xs \<and> NaN \<notin> set ys"
    using ne sx sy lx ly xs(1) ys(1) z len nr nanx nany
    unfolding G_def getitem_Series by simp
  then show ?thesis by blast
qed

lemma count_complete_rows:
  assumes "length a = n" "length b = n"
  shows "length (filter (\<lambda>(u, v). \<not> isna u \<and> \<not> isna v) (zip a b))
           + length (filter (\<lambda>i. isna (a ! i) \<or> isna (b ! i)) [0..<n]) = n"
proof -
  have "filter (\<lambda>(u, v). \<not> isna u \<and> \<not> isna v) (zip a b)
          = map (\<lambda>i. (a ! i, b ! i)) (filter (\<lambda>i. \<not> (isna (a ! i) \<or> isna (b ! i))) [0..<n])"
    using assms by (simp add: zip_nth_upt filter_map comp_def)
  then have "length (filter (\<lambda>(u, v). \<not> isna u \<and> \<not> isna v) (zip a b))
          = length (filter (\<lambda>i. \<not> (isna (a ! i) \<or> isna (b ! i))) [0..<n])"
    by simp
  moreover have "length (filter (\<lambda>i. isna (a ! i) \<or> isna (b ! i)) [0..<n])
          + length (filter (\<lambda>i. \<not> (isna (a ! i) \<or> isna (b ! i))) [0..<n]) = length [0..<n]"
    by (rule sum_length_filter_compl)
  ultimately show ?thesis by simp
qed

section \<open>The cleaned pair\<close>

text \<open>
  Claim C6. For a well-formed data set and any two column labels: whenever lines 167 to
  170 build the cleaned frame, it holds one x-series and one y-series of equal length,
  that length is at most the number of source rows and equals it minus the number of rows
  whose converted x or y cell is missing, and the cleaned rows are exactly the complete
  source rows in their source order. The frame is built whenever the two labels differ
  and each names one column of the data set.
\<close>

theorem cleaned_pair_invariant:
  assumes wf: "wf_frame df"
  shows "(col_x \<noteq> col_y \<and> (\<exists>sx. getitem df col_x = Inr (Series sx))
            \<and> (\<exists>sy. getitem df col_y = Inr (Series sy))
          \<longrightarrow> (\<exists>data. clean lib df col_x col_y = Inr data)) \<and>
         (\<forall>data. clean lib df col_x col_y = Inr data \<longrightarrow>
            (\<exists>sx sy xs ys.
               getitem df col_x = Inr (Series sx) \<and> getitem df col_y = Inr (Series sy) \<and>
               column_values data col_x = Inr xs \<and> column_values data col_y = Inr ys \<and>
               length xs = length ys \<and> length xs = nrows data \<and>
               nrows data \<le> nrows df \<and>
               nrows data
                 + length (filter (\<lambda>i. isna (numeric_values lib sx ! i) \<or> isna (numeric_values lib sy ! i))
                             [0..<nrows df])
                 = nrows df \<and>
               zip (map Num xs) (map Num ys) =
                 filter (\<lambda>(a, b). \<not> isna a \<and> \<not> isna b)
                   (zip (numeric_values lib sx) (numeric_values lib sy)) \<and>
               subseq (zip (map Num xs) (map Num ys))
                 (zip (numeric_values lib sx) (numeric_values lib sy))))"
proof (intro conjI impI allI)
  assume "col_x \<noteq> col_y \<and> (\<exists>sx. getitem df col_x = Inr (Series sx))
            \<and> (\<exists>sy. getitem df col_y = Inr (Series sy))"
  then show "\<exists>data. clean lib df col_x col_y = Inr data"
    by (auto simp: clean_Inr getitem_Series)
next
  fix data
  assume cl: "clean lib df col_x col_y = Inr data"
  from cleaned_values [OF wf cl] obtain sx sy xs ys where
    gx: "getitem df col_x = Inr (Series sx)" and gy: "getitem df col_y = Inr (Series sy)" and
    lx: "length sx = nrows df" and ly: "length sy = nrows df" and
    vx: "column_values data col_x = Inr xs" and vy: "column_values data col_y = Inr ys" and
    z: "zip (map Num xs) (map Num ys) =
       filter (\<lambda>(a, b). \<not> isna a \<and> \<not> isna b) (zip (numeric_values lib sx) (numeric_values lib sy))" and
    nx: "length xs = nrows data" and ny: "length ys = nrows data"
    by blast
  let ?Z = "zip (numeric_values lib sx) (numeric_values lib sy)"
  let ?G = "filter (\<lambda>(a, b). \<not> isna a \<and> \<not> isna b) ?Z"
  have "length ?G = nrows data" using z [symmetric] nx ny by simp
  moreover have "length ?G
       + length (filter (\<lambda>i. isna (numeric_values lib sx ! i) \<or> isna (numeric_values lib sy ! i))
                  [0..<nrows df]) = nrows df"
    using lx ly by (intro count_complete_rows) simp_all
  ultimately have cnt: "nrows data
       + length (filter (\<lambda>i. isna (numeric_values lib sx ! i) \<or> isna (numeric_values lib sy ! i))
                  [0..<nrows df]) = nrows df"
    by simp
  then have le: "nrows data \<le> nrows df" by linarith
  have sub: "subseq (zip (map Num xs) (map Num ys)) ?Z"
    unfolding z by (rule subseq_filter_left)
  have "getitem df col_x = Inr (Series sx) \<and> getitem df col_y = Inr (Series sy) \<and>
               column_values data col_x = Inr xs \<and> column_values data col_y = Inr ys \<and>
               length xs = length ys \<and> length xs = nrows data \<and>
               nrows data \<le> nrows df \<and>
               nrows data
                 + length (filter (\<lambda>i. isna (numeric_values lib sx ! i) \<or> isna (numeric_values lib sy ! i))
                             [0..<nrows df])
                 = nrows df \<and>
               zip (map Num xs) (map Num ys) = ?G \<and>
               subseq (zip (map Num xs) (map Num ys)) ?Z"
    using gx gy vx vy nx ny le cnt z sub by simp
  then show "\<exists>sx sy xs ys.
               getitem df col_x = Inr (Series sx) \<and> getitem df col_y = Inr (Series sy) \<and>
               column_values data col_x = Inr xs \<and> column_values data col_y = Inr ys \<and>
               length xs = length ys \<and> length xs = nrows data \<and>
               nrows data \<le> nrows df \<and>
               nrows data
                 + length (filter (\<lambda>i. isna (numeric_values lib sx ! i) \<or> isna (numeric_values lib sy ! i))
                             [0..<nrows df])
                 = nrows df \<and>
               zip (map Num xs) (map Num ys) =
                 filter (\<lambda>(a, b). \<not> isna a \<and> \<not> isna b)
                   (zip (numeric_values lib sx) (numeric_values lib sy)) \<and>
               subseq (zip (map Num xs) (map Num ys))
                 (zip (numeric_values lib sx) (numeric_values lib sy))"
    by blast
qed

theorem cleaned_pair_invariant_witness:
  "wf_frame sparse_df \<and>
   clean sample_lib sparse_df ''x'' ''y''
     = Inr [(''x'', [Num (Fin 1), Num (Fin 3)]), (''y'', [Num (Fin 2), Num (Fin 7)])] \<and>
   (\<exists>sx sy xs ys.
      getitem sparse_df ''x'' = Inr (Series sx) \<and> getitem sparse_df ''y'' = Inr (Series sy) \<and>
      column_values [(''x'', [Num (Fin 1), Num (Fin 3)]), (''y'', [Num (Fin 2), Num (Fin 7)])] ''x''
        = Inr xs \<and>
      column_values [(''x'', [Num (Fin 1), Num (Fin 3)]), (''y'', [Num (Fin 2), Num (Fin 7)])] ''y''
        = Inr ys \<and>
      length xs = length ys \<and> length xs = 2 \<and> nrows sparse_df = 4 \<and>
      length (filter (\<lambda>i. isna (numeric_values sample_lib sx ! i) \<or> isna (numeric_values sample_lib sy ! i))
                [0..<nrows sparse_df]) = 2 \<and>
      subseq (zip (map Num xs) (map Num ys))
        (zip (numeric_values sample_lib sx) (numeric_values sample_lib sy)))"
proof -
  let ?D = "[(''x'', [Num (Fin 1), Num (Fin 3)]), (''y'', [Num (Fin 2), Num (Fin 7)])]"
  have wf: "wf_frame sparse_df" by code_simp
  have cl: "clean sample_lib sparse_df ''x'' ''y'' = Inr ?D" by code_simp
  have n: "nrows ?D = 2" "nrows sparse_df = 4" by code_simp+
  from cleaned_pair_invariant [OF wf, of "''x''" "''y''" sample_lib] cl
  obtain sx sy xs ys where
    "getitem sparse_df ''x'' = Inr (Series sx)" "getitem sparse_df ''y'' = Inr (Series sy)"
    "column_values ?D ''x'' = Inr xs" "column_values ?D ''y'' = Inr ys"
    "length xs = length ys" "length xs = nrows ?D"
    "nrows ?D
       + length (filter (\<lambda>i. isna (numeric_values sample_lib sx ! i) \<or> isna (numeric_values sample_lib sy ! i))
                   [0..<nrows sparse_df])
       = nrows sparse_df"
    "subseq (zip (map Num xs) (map Num ys))
        (zip (numeric_values sample_lib sx) (numeric_values sample_lib sy))"
    by blast
  then show ?thesis using wf cl n by auto
qed

section \<open>Properties of the analysis\<close>



lemma analyze_pair_report:
  assumes "snd (analyze_pair lib xs ys) = Inr rep"
  shows "r_p_x rep = snd (safe_shapiro lib xs)" "r_p_y rep = snd (safe_shapiro lib ys)"
    "r_method rep = (if use_pearson (r_p_x rep) (r_p_y rep) then Pearson else Spearman)"
    "r_direction rep = direction (r_corr rep)" "r_strength rep = strength (r_corr rep)"
    "r_points rep = zip xs ys" "r_line rep = fit_line lib xs ys"
    "(if use_pearson (r_p_x rep) (r_p_y rep) then pearsonr lib xs ys else spearmanr lib xs ys)
       = Inr (r_corr rep, r_pval rep)"
  using assms
  by (auto simp: analyze_pair_def Let_def split: sum.splits prod.splits if_splits)

lemma analyze_pair_total:
  assumes "(if use_pearson (snd (safe_shapiro lib xs)) (snd (safe_shapiro lib ys))
            then pearsonr lib xs ys else spearmanr lib xs ys) = Inr (c, p)"
  shows "\<exists>rep. snd (analyze_pair lib xs ys) = Inr rep \<and> r_corr rep = c \<and> r_pval rep = p"
  using assms
  by (auto simp: analyze_pair_def Let_def split: sum.splits prod.splits if_splits)

lemma analyze_unfold:
  assumes "clean lib df col_x col_y = Inr data" "\<not> nrows data < 3"
    "column_values data col_x = Inr xs" "column_values data col_y = Inr ys"
  shows "analyze lib df col_x col_y = analyze_pair lib xs ys"
  using assms by (simp add: analyze_def)

lemma analyze_Inr_pair:
  assumes "snd (analyze lib df col_x col_y) = Inr rep"
  shows "\<exists>data xs ys. clean lib df col_x col_y = Inr data \<and> \<not> nrows data < 3 \<and>
     column_values data col_x = Inr xs \<and> column_values data col_y = Inr ys \<and>
     analyze lib df col_x col_y = analyze_pair lib xs ys"
  using assms by (auto simp: analyze_def split: sum.splits if_splits)

section \<open>Insufficient data\<close>

text \<open>
  The check of lines 172 to 174 on a cleaned frame: whenever lines 167 to 170 build a
  cleaned frame of fewer than three rows, the run ends with the insufficient-data
  error, with no report and without any call to scipy. In terms of the source columns:
  for a well-formed data set and two distinct labels that each name one column, fewer
  than three rows complete in both converted columns give that outcome.
\<close>

lemma insufficient_data_stops:
  "(\<forall>data. clean lib df col_x col_y = Inr data \<and> nrows data < 3 \<longrightarrow>
       analyze lib df col_x col_y = ([], Inl InsufficientDataError)) \<and>
   (wf_frame df \<and> col_x \<noteq> col_y \<and>
    getitem df col_x = Inr (Series sx) \<and> getitem df col_y = Inr (Series sy) \<and>
    length (filter (\<lambda>(a, b). \<not> isna a \<and> \<not> isna b)
              (zip (numeric_values lib sx) (numeric_values lib sy))) < 3 \<longrightarrow>
       analyze lib df col_x col_y = ([], Inl InsufficientDataError))"
proof (intro conjI allI impI)
  fix data
  assume "clean lib df col_x col_y = Inr data \<and> nrows data < 3"
  then show "analyze lib df col_x col_y = ([], Inl InsufficientDataError)"
    by (simp add: analyze_def)
next
  let ?G = "filter (\<lambda>(a, b). \<not> isna a \<and> \<not> isna b)
              (zip (numeric_values lib sx) (numeric_values lib sy))"
  assume h: "wf_frame df \<and> col_x \<noteq> col_y \<and>
    getitem df col_x = Inr (Series sx) \<and> getitem df col_y = Inr (Series sy) \<and>
    length ?G < 3"
  then have cx: "columns_named df col_x = [(col_x, sx)]"
    and cy: "columns_named df col_y = [(col_y, sy)]"
    by (simp_all add: getitem_Series)
  with h have len: "length sx = nrows df" "length sy = nrows df"
    by (simp_all add: wf_column_length)
  have cl: "clean lib df col_x col_y
      = Inr (dropna [(col_x, numeric_values lib sx), (col_y, numeric_values lib sy)])"
    using h cx cy by (simp add: clean_Inr)
  have "dropna [(col_x, numeric_values lib sx), (col_y, numeric_values lib sy)]
      = [(col_x, map fst ?G), (col_y, map snd ?G)]"
    using len by (simp add: dropna_pair)
  then have "nrows (dropna [(col_x, numeric_values lib sx), (col_y, numeric_values lib sy)])
      = length ?G"
    by (simp add: nrows_def)
  with h cl show "analyze lib df col_x col_y = ([], Inl InsufficientDataError)"
    by (simp add: analyze_def)
qed

text \<open>
  Claim C2. The claim is for every column pair, and the run does not meet it when both
  variables are the same column: for a column of fewer than three rows selected for
  both variables (a data set with one numeric column offers no other choice), no
  cleaned frame is built, the check of line 172 is never reached, and the run ends with
  \<^verbatim>\<open>TypeError\<close> at line 168 instead of the insufficient-data error. Nothing is
  computed in that run either: no call to scipy is made and no report is produced.
\<close>

theorem insufficient_data_equal_columns:
  assumes "getitem df c = Inr (Series s)" and "length s < 3"
  shows "analyze lib df c c = ([], Inl TypeError) \<and>
         analyze lib df c c \<noteq> ([], Inl InsufficientDataError)"
proof -
  from assms(1) have "columns_named df c \<noteq> []" by (simp add: getitem_Series)
  then have "clean lib df c c = Inl TypeError" by (simp add: clean_equal_columns)
  then show ?thesis by (simp add: analyze_def)
qed

theorem insufficient_data_equal_columns_witness:
  "getitem two_rows_df ''score'' = Inr (Series [Num (Fin 1), Num (Fin 2)]) \<and>
   length [Num (Fin 1), Num (Fin 2)] < 3 \<and>
   analyze sample_lib two_rows_df ''score'' ''score'' = ([], Inl TypeError) \<and>
   analyze sample_lib two_rows_df ''score'' ''score'' \<noteq> ([], Inl InsufficientDataError)"
proof -
  have g: "getitem two_rows_df ''score'' = Inr (Series [Num (Fin 1), Num (Fin 2)])"
    by code_simp
  have l: "length [Num (Fin 1), Num (Fin 2)] < 3" by simp
  from insufficient_data_equal_columns [OF g l, of sample_lib] g l show ?thesis by simp
qed

section \<open>Choice of the correlation method\<close>





section \<open>Normality results that cannot be computed\<close>







section \<open>Interpretation of the coefficient\<close>

lemma analyze_report:
  assumes "snd (analyze lib df col_x col_y) = Inr rep"
  shows "r_direction rep = direction (r_corr rep)" "r_strength rep = strength (r_corr rep)"
proof -
  from analyze_Inr_pair [OF assms] obtain xs ys where
    "analyze lib df col_x col_y = analyze_pair lib xs ys" by blast
  with assms have "snd (analyze_pair lib xs ys) = Inr rep" by simp
  then show "r_direction rep = direction (r_corr rep)" "r_strength rep = strength (r_corr rep)"
    by (rule analyze_pair_report)+
qed

lemma strength_Fin:
  "strength (Fin q) =
     (if \<bar>q\<bar> < 5404319552844595 / 18014398509481984 then VeryWeak
      else if \<bar>q\<bar> < 1 / 2 then Weak
      else if \<bar>q\<bar> < 3152519739159347 / 4503599627370496 then Moderate
      else Strong)"
  by (simp add: strength_def lit_0_3_def lit_0_5_def lit_0_7_def)

lemma direction_cases:
  "direction (Fin q) = (if 0 < q then Positive else Negative)"
  "direction PInf = Positive" "direction NInf = Negative" "direction NaN = Negative"
  by (simp_all add: direction_def fgt_def lit_0_def)

text \<open>
  Claim C4. Whenever the run produces a report with a finite coefficient \<open>r\<close>, the
  reported strength is fixed by \<open>|r|\<close> through bins that include their lower bound:
  below 0.3 very weak, from 0.3 to below 0.5 weak, from 0.5 to below 0.7 moderate, from
  0.7 on strong. The bounds are the values of the literals \<^verbatim>\<open>0.3\<close>, \<^verbatim>\<open>0.5\<close> and
  \<^verbatim>\<open>0.7\<close>; a magnitude equal to such a bound (or to the decimal \<open>3/10\<close>, \<open>1/2\<close>,
  \<open>7/10\<close> itself) falls into the higher bin: weak, moderate and strong.
\<close>

theorem strength_bins:
  assumes "snd (analyze lib df col_x col_y) = Inr rep" and "r_corr rep = Fin q"
  shows "(0 \<le> \<bar>q\<bar> \<and> \<bar>q\<bar> < 5404319552844595 / 18014398509481984
            \<longrightarrow> r_strength rep = VeryWeak) \<and>
         (5404319552844595 / 18014398509481984 \<le> \<bar>q\<bar> \<and> \<bar>q\<bar> < 1 / 2
            \<longrightarrow> r_strength rep = Weak) \<and>
         (1 / 2 \<le> \<bar>q\<bar> \<and> \<bar>q\<bar> < 3152519739159347 / 4503599627370496
            \<longrightarrow> r_strength rep = Moderate) \<and>
         (3152519739159347 / 4503599627370496 \<le> \<bar>q\<bar> \<and> \<bar>q\<bar> \<le> 1
            \<longrightarrow> r_strength rep = Strong) \<and>
         (fabs (Fin q) = lit_0_3 \<or> \<bar>q\<bar> = 3 / 10 \<longrightarrow> r_strength rep = Weak) \<and>
         (fabs (Fin q) = lit_0_5 \<or> \<bar>q\<bar> = 1 / 2 \<longrightarrow> r_strength rep = Moderate) \<and>
         (fabs (Fin q) = lit_0_7 \<or> \<bar>q\<bar> = 7 / 10 \<longrightarrow> r_strength rep = Strong)"
proof -
  have s: "r_strength rep = strength (Fin q)"
    using analyze_report(2) [OF assms(1)] assms(2) by simp
  show ?thesis
    unfolding s strength_Fin
    by (auto simp: lit_0_3_def lit_0_5_def lit_0_7_def)
qed

theorem strength_bins_witness:
  "snd (analyze (sample_lib\<lparr>pearsonr := \<lambda>xs ys. Inr (lit_0_3, Fin 0)\<rparr>) linear_df ''x'' ''y'')
     = Inr \<lparr>r_method = Pearson, r_corr = lit_0_3, r_pval = Fin 0,
            r_p_x = Fin (1 / 2), r_p_y = Fin (1 / 2),
            r_direction = Positive, r_strength = Weak,
            r_points = [(Fin 1, Fin 2), (Fin 2, Fin 4), (Fin 3, Fin 6), (Fin 4, Fin 8),
                        (Fin 5, Fin 10)],
            r_line = Some \<lparr>slope = Fin 2, intercept = Fin 0, x_lo = Fin 1, x_hi = Fin 5\<rparr>\<rparr> \<and>
   lit_0_3 = Fin (5404319552844595 / 18014398509481984) \<and>
   r_strength \<lparr>r_method = Pearson, r_corr = lit_0_3, r_pval = Fin 0,
            r_p_x = Fin (1 / 2), r_p_y = Fin (1 / 2),
            r_direction = Positive, r_strength = Weak,
            r_points = [(Fin 1, Fin 2), (Fin 2, Fin 4), (Fin 3, Fin 6), (Fin 4, Fin 8),
                        (Fin 5, Fin 10)],
            r_line = Some \<lparr>slope = Fin 2, intercept = Fin 0, x_lo = Fin 1, x_hi = Fin 5\<rparr>\<rparr>
     = Weak"
proof -
  let ?lib = "sample_lib\<lparr>pearsonr := \<lambda>xs ys. Inr (lit_0_3, Fin 0)\<rparr>"
  let ?rep = "\<lparr>r_method = Pearson, r_corr = lit_0_3, r_pval = Fin 0,
            r_p_x = Fin (1 / 2), r_p_y = Fin (1 / 2),
            r_direction = Positive, r_strength = Weak,
            r_points = [(Fin 1, Fin 2), (Fin 2, Fin 4), (Fin 3, Fin 6), (Fin 4, Fin 8),
                        (Fin 5, Fin 10)],
            r_line = Some \<lparr>slope = Fin 2, intercept = Fin 0, x_lo = Fin 1, x_hi = Fin 5\<rparr>\<rparr>"
  have a: "snd (analyze ?lib linear_df ''x'' ''y'') = Inr ?rep" by code_simp
  have c: "r_corr ?rep = Fin (5404319552844595 / 18014398509481984)"
    by (simp add: lit_0_3_def)
  have l: "lit_0_3 = Fin (5404319552844595 / 18014398509481984)" by (simp add: lit_0_3_def)
  from strength_bins [OF a c] have "r_strength ?rep = Weak" by simp
  with a l show ?thesis by simp
qed

text \<open>
  Claim C5. Whenever the run produces a report, the reported direction is positive
  exactly when the coefficient is greater than 0 and negative in every other case; a
  coefficient of exactly 0 is reported as negative.
\<close>

theorem direction_rule:
  assumes "snd (analyze lib df col_x col_y) = Inr rep"
  shows "(r_direction rep = Positive \<longleftrightarrow> (\<exists>q. r_corr rep = Fin q \<and> 0 < q) \<or> r_corr rep = PInf) \<and>
         (r_direction rep = Negative \<longleftrightarrow> \<not> ((\<exists>q. r_corr rep = Fin q \<and> 0 < q) \<or> r_corr rep = PInf)) \<and>
         (r_corr rep = Fin 0 \<longrightarrow> r_direction rep = Negative)"
proof -
  have d: "r_direction rep = direction (r_corr rep)"
    using analyze_report(1) [OF assms] .
  show ?thesis unfolding d
    by (cases "r_corr rep") (simp_all add: direction_cases)
qed

theorem direction_rule_witness:
  "snd (analyze (sample_lib\<lparr>pearsonr := \<lambda>xs ys. Inr (Fin 0, Fin 1)\<rparr>) linear_df ''x'' ''y'')
     = Inr \<lparr>r_method = Pearson, r_corr = Fin 0, r_pval = Fin 1,
            r_p_x = Fin (1 / 2), r_p_y = Fin (1 / 2),
            r_direction = Negative, r_strength = VeryWeak,
            r_points = [(Fin 1, Fin 2), (Fin 2, Fin 4), (Fin 3, Fin 6), (Fin 4, Fin 8),
                        (Fin 5, Fin 10)],
            r_line = Some \<lparr>slope = Fin 2, intercept = Fin 0, x_lo = Fin 1, x_hi = Fin 5\<rparr>\<rparr> \<and>
   r_direction \<lparr>r_method = Pearson, r_corr = Fin 0, r_pval = Fin 1,
            r_p_x = Fin (1 / 2), r_p_y = Fin (1 / 2),
            r_direction = Negative, r_strength = VeryWeak,
            r_points = [(Fin 1, Fin 2), (Fin 2, Fin 4), (Fin 3, Fin 6), (Fin 4, Fin 8),
                        (Fin 5, Fin 10)],
            r_line = Some \<lparr>slope = Fin 2, intercept = Fin 0, x_lo = Fin 1, x_hi = Fin 5\<rparr>\<rparr>
     = Negative"
proof -
  let ?lib = "sample_lib\<lparr>pearsonr := \<lambda>xs ys. Inr (Fin 0, Fin 1)\<rparr>"
  let ?rep = "\<lparr>r_method = Pearson, r_corr = Fin 0, r_pval = Fin 1,
            r_p_x = Fin (1 / 2), r_p_y = Fin (1 / 2),
            r_direction = Negative, r_strength = VeryWeak,
            r_points = [(Fin 1, Fin 2), (Fin 2, Fin 4), (Fin 3, Fin 6), (Fin 4, Fin 8),
                        (Fin 5, Fin 10)],
            r_line = Some \<lparr>slope = Fin 2, intercept = Fin 0, x_lo = Fin 1, x_hi = Fin 5\<rparr>\<rparr>"
  have a: "snd (analyze ?lib linear_df ''x'' ''y'') = Inr ?rep" by code_simp
  have c: "r_corr ?rep = Fin 0" by simp
  from direction_rule [OF a] c have "r_direction ?rep = Negative" by blast
  with a show ?thesis by simp
qed

lemma strength_NaN: "strength NaN = Strong"
  by (simp add: strength_def lit_0_3_def lit_0_5_def lit_0_7_def)

text \<open>
  Claim C10. A report whose coefficient is NaN carries the direction negative and the
  strength strong. Such a report is produced: when the cleaned frame has at least three
  rows and the correlation function that the run selects returns a NaN coefficient, the
  run ends with a report of that coefficient.
\<close>

theorem nan_coefficient_classified:
  "(snd (analyze lib df col_x col_y) = Inr rep \<and> r_corr rep = NaN \<longrightarrow>
      r_direction rep = Negative \<and> r_strength rep = Strong) \<and>
   (clean lib df col_x col_y = Inr data \<and> \<not> nrows data < 3 \<and>
    column_values data col_x = Inr xs \<and> column_values data col_y = Inr ys \<and>
    (if use_pearson (snd (safe_shapiro lib xs)) (snd (safe_shapiro lib ys))
     then pearsonr lib xs ys else spearmanr lib xs ys) = Inr (NaN, p) \<longrightarrow>
      (\<exists>rep'. snd (analyze lib df col_x col_y) = Inr rep' \<and> r_corr rep' = NaN \<and>
          r_pval rep' = p \<and> r_direction rep' = Negative \<and> r_strength rep' = Strong))"
proof (intro conjI impI)
  assume h: "snd (analyze lib df col_x col_y) = Inr rep \<and> r_corr rep = NaN"
  then have "r_direction rep = direction NaN" "r_strength rep = strength NaN"
    using analyze_report [of lib df col_x col_y rep] by simp_all
  then show "r_direction rep = Negative" "r_strength rep = Strong"
    by (simp_all add: direction_cases strength_NaN)
next
  assume h: "clean lib df col_x col_y = Inr data \<and> \<not> nrows data < 3 \<and>
    column_values data col_x = Inr xs \<and> column_values data col_y = Inr ys \<and>
    (if use_pearson (snd (safe_shapiro lib xs)) (snd (safe_shapiro lib ys))
     then pearsonr lib xs ys else spearmanr lib xs ys) = Inr (NaN, p)"
  then have a: "analyze lib df col_x col_y = analyze_pair lib xs ys"
    by (simp add: analyze_unfold)
  from h analyze_pair_total [of lib xs ys NaN p] obtain rep' where
    r: "snd (analyze_pair lib xs ys) = Inr rep'" "r_corr rep' = NaN" "r_pval rep' = p"
    by blast
  from analyze_pair_report(4,5) [OF r(1)] r(2)
  have "r_direction rep' = Negative" "r_strength rep' = Strong"
    by (simp_all add: direction_cases strength_NaN)
  with r a show "\<exists>rep'. snd (analyze lib df col_x col_y) = Inr rep' \<and> r_corr rep' = NaN \<and>
          r_pval rep' = p \<and> r_direction rep' = Negative \<and> r_strength rep' = Strong"
    by simp
qed

theorem nan_coefficient_classified_witness:
  "clean (sample_lib\<lparr>spearmanr := \<lambda>xs ys. Inr (NaN, NaN)\<rparr>) constant_df ''x'' ''y''
     = Inr constant_df \<and>
   \<not> nrows constant_df < 3 \<and>
   column_values constant_df ''x'' = Inr [Fin 1, Fin 1, Fin 1, Fin 1, Fin 1] \<and>
   column_values constant_df ''y'' = Inr [Fin 2, Fin 3, Fin 1, Fin 5, Fin 4] \<and>
   (\<exists>rep. snd (analyze (sample_lib\<lparr>spearmanr := \<lambda>xs ys. Inr (NaN, NaN)\<rparr>) constant_df ''x'' ''y'')
             = Inr rep \<and>
          r_corr rep = NaN \<and> r_direction rep = Negative \<and> r_strength rep = Strong)"
proof -
  let ?lib = "sample_lib\<lparr>spearmanr := \<lambda>xs ys. Inr (NaN, NaN)\<rparr>"
  let ?xs = "[Fin 1, Fin 1, Fin 1, Fin 1, Fin 1 :: pyfloat]"
  let ?ys = "[Fin 2, Fin 3, Fin 1, Fin 5, Fin 4 :: pyfloat]"
  have cl: "clean ?lib constant_df ''x'' ''y'' = Inr constant_df" by code_simp
  have n: "\<not> nrows constant_df < 3" by code_simp
  have vx: "column_values constant_df ''x'' = Inr ?xs" by code_simp
  have vy: "column_values constant_df ''y'' = Inr ?ys" by code_simp
  have c: "(if use_pearson (snd (safe_shapiro ?lib ?xs)) (snd (safe_shapiro ?lib ?ys))
     then pearsonr ?lib ?xs ?ys else spearmanr ?lib ?xs ?ys) = Inr (NaN, NaN)"
    by code_simp
  from nan_coefficient_classified [of ?lib constant_df "''x''" "''y''" _ constant_df ?xs ?ys NaN]
    cl n vx vy c
  have "\<exists>rep. snd (analyze ?lib constant_df ''x'' ''y'') = Inr rep \<and>
          r_corr rep = NaN \<and> r_direction rep = Negative \<and> r_strength rep = Strong"
    by blast
  with cl n vx vy show ?thesis by blast
qed

section \<open>The regression line\<close>

lemma numeric_values_linregress_update [simp]:
  "numeric_values (lib\<lparr>linregress := lr\<rparr>) s = numeric_values lib s"
  by (simp add: numeric_values_def)

lemma to_numeric_linregress_update [simp]:
  "to_numeric (lib\<lparr>linregress := lr\<rparr>) it = to_numeric lib it"
  by (cases it) simp_all

lemma coerce_column_linregress_update [simp]:
  "coerce_column (lib\<lparr>linregress := lr\<rparr>) data c = coerce_column lib data c"
  by (simp add: coerce_column_def cong: sum.case_cong)

lemma clean_linregress_update [simp]:
  "clean (lib\<lparr>linregress := lr\<rparr>) df col_x col_y = clean lib df col_x col_y"
  by (simp add: clean_def cong: sum.case_cong)

lemma safe_shapiro_linregress_update [simp]:
  "safe_shapiro (lib\<lparr>linregress := lr\<rparr>) s = safe_shapiro lib s"
  by (simp add: safe_shapiro_def)

lemma analyze_pair_fit_fails:
  assumes "lr xs ys = Inl e"
  shows "analyze_pair (lib\<lparr>linregress := lr\<rparr>) xs ys
     = (fst (analyze_pair lib xs ys),
        map_sum id (\<lambda>rep. rep\<lparr>r_line := None\<rparr>) (snd (analyze_pair lib xs ys)))"
  using assms
  by (auto simp: analyze_pair_def Let_def fit_line_def split: sum.splits prod.splits)

text \<open>
  Claim C7. Take a run whose cleaned frame has at least three rows, and a
  \<^verbatim>\<open>linregress\<close> that raises on the cleaned series. The run makes the same calls and
  ends as it does with any other \<^verbatim>\<open>linregress\<close>: with the same error if the
  correlation raised, and otherwise with the same report (method, coefficient, p-value,
  normality results, direction, strength, points) except that the line is absent. In
  particular, when the selected correlation returns, a report is produced.
\<close>

theorem regression_failure_harmless:
  assumes "clean lib df col_x col_y = Inr data" and "\<not> nrows data < 3"
    and "column_values data col_x = Inr xs" and "column_values data col_y = Inr ys"
    and "lr xs ys = Inl e"
  shows "analyze (lib\<lparr>linregress := lr\<rparr>) df col_x col_y
           = (fst (analyze lib df col_x col_y),
              map_sum id (\<lambda>rep. rep\<lparr>r_line := None\<rparr>) (snd (analyze lib df col_x col_y))) \<and>
         (\<forall>c p. (if use_pearson (snd (safe_shapiro lib xs)) (snd (safe_shapiro lib ys))
                 then pearsonr lib xs ys else spearmanr lib xs ys) = Inr (c, p) \<longrightarrow>
            (\<exists>rep. snd (analyze (lib\<lparr>linregress := lr\<rparr>) df col_x col_y) = Inr rep \<and>
                r_line rep = None \<and> r_corr rep = c \<and> r_pval rep = p \<and>
                r_direction rep = direction c \<and> r_strength rep = strength c))"
proof -
  have a: "analyze lib df col_x col_y = analyze_pair lib xs ys"
    using assms(1-4) by (rule analyze_unfold)
  have a': "analyze (lib\<lparr>linregress := lr\<rparr>) df col_x col_y
      = analyze_pair (lib\<lparr>linregress := lr\<rparr>) xs ys"
    using assms(1-4) by (simp add: analyze_unfold)
  have eq: "analyze (lib\<lparr>linregress := lr\<rparr>) df col_x col_y
           = (fst (analyze lib df col_x col_y),
              map_sum id (\<lambda>rep. rep\<lparr>r_line := None\<rparr>) (snd (analyze lib df col_x col_y)))"
    unfolding a a' using assms(5) by (rule analyze_pair_fit_fails)
  have tot: "\<forall>c p. (if use_pearson (snd (safe_shapiro lib xs)) (snd (safe_shapiro lib ys))
                 then pearsonr lib xs ys else spearmanr lib xs ys) = Inr (c, p) \<longrightarrow>
            (\<exists>rep. snd (analyze (lib\<lparr>linregress := lr\<rparr>) df col_x col_y) = Inr rep \<and>
                r_line rep = None \<and> r_corr rep = c \<and> r_pval rep = p \<and>
                r_direction rep = direction c \<and> r_strength rep = strength c)"
  proof (intro allI impI)
    fix c p
    assume "(if use_pearson (snd (safe_shapiro lib xs)) (snd (safe_shapiro lib ys))
                 then pearsonr lib xs ys else spearmanr lib xs ys) = Inr (c, p)"
    from analyze_pair_total [OF this] obtain rep where
      r: "snd (analyze_pair lib xs ys) = Inr rep" "r_corr rep = c" "r_pval rep = p"
      by blast
    from analyze_pair_report(4,5) [OF r(1)] r(2)
    have d: "r_direction rep = direction c" "r_strength rep = strength c" by simp_all
    have "snd (analyze (lib\<lparr>linregress := lr\<rparr>) df col_x col_y) = Inr (rep\<lparr>r_line := None\<rparr>)"
      unfolding eq a using r(1) by simp
    with r d show "\<exists>rep. snd (analyze (lib\<lparr>linregress := lr\<rparr>) df col_x col_y) = Inr rep \<and>
                r_line rep = None \<and> r_corr rep = c \<and> r_pval rep = p \<and>
                r_direction rep = direction c \<and> r_strength rep = strength c"
      by simp
  qed
  from eq tot show ?thesis by blast
qed

theorem regression_failure_harmless_witness:
  "clean sample_lib linear_df ''x'' ''y'' = Inr linear_df \<and> \<not> nrows linear_df < 3 \<and>
   column_values linear_df ''x'' = Inr [Fin 1, Fin 2, Fin 3, Fin 4, Fin 5] \<and>
   column_values linear_df ''y'' = Inr [Fin 2, Fin 4, Fin 6, Fin 8, Fin 10] \<and>
   analyze (sample_lib\<lparr>linregress := \<lambda>xs ys. Inl LibraryError\<rparr>) linear_df ''x'' ''y''
     = ([CallShapiro, CallShapiro, CallPearsonr, CallLinregress],
        Inr \<lparr>r_method = Pearson, r_corr = Fin 1, r_pval = Fin 0,
             r_p_x = Fin (1 / 2), r_p_y = Fin (1 / 2),
             r_direction = Positive, r_strength = Strong,
             r_points = [(Fin 1, Fin 2), (Fin 2, Fin 4), (Fin 3, Fin 6), (Fin 4, Fin 8),
                         (Fin 5, Fin 10)],
             r_line = None\<rparr>)"
proof -
  let ?xs = "[Fin 1, Fin 2, Fin 3, Fin 4, Fin 5 :: pyfloat]"
  let ?ys = "[Fin 2, Fin 4, Fin 6, Fin 8, Fin 10 :: pyfloat]"
  have cl: "clean sample_lib linear_df ''x'' ''y'' = Inr linear_df" by code_simp
  have n: "\<not> nrows linear_df < 3" by code_simp
  have vx: "column_values linear_df ''x'' = Inr ?xs" by code_simp
  have vy: "column_values linear_df ''y'' = Inr ?ys" by code_simp
  have f: "(\<lambda>xs ys. Inl LibraryError :: error + (pyfloat \<times> pyfloat)) ?xs ?ys = Inl LibraryError"
    by simp
  have a: "analyze sample_lib linear_df ''x'' ''y''
     = ([CallShapiro, CallShapiro, CallPearsonr, CallLinregress],
        Inr \<lparr>r_method = Pearson, r_corr = Fin 1, r_pval = Fin 0,
             r_p_x = Fin (1 / 2), r_p_y = Fin (1 / 2),
             r_direction = Positive, r_strength = Strong,
             r_points = [(Fin 1, Fin 2), (Fin 2, Fin 4), (Fin 3, Fin 6), (Fin 4, Fin 8),
                         (Fin 5, Fin 10)],
             r_line = Some \<lparr>slope = Fin 2, intercept = Fin 0, x_lo = Fin 1, x_hi = Fin 5\<rparr>\<rparr>)"
    by code_simp
  from regression_failure_harmless [OF cl n vx vy f]
  have "analyze (sample_lib\<lparr>linregress := \<lambda>xs ys. Inl LibraryError\<rparr>) linear_df ''x'' ''y''
     = (fst (analyze sample_lib linear_df ''x'' ''y''),
        map_sum id (\<lambda>rep. rep\<lparr>r_line := None\<rparr>) (snd (analyze sample_lib linear_df ''x'' ''y'')))"
    by blast
  then show ?thesis unfolding a using cl n vx vy by simp
qed

section \<open>Coercion of numeric columns\<close>









section \<open>The same column for both variables\<close>

text \<open>
  Claim C8. With the same label for both variables, \<^verbatim>\<open>df[[c, c]]\<close> holds two
  columns of that label, \<^verbatim>\<open>data[c]\<close> is then a frame and not a series, and
  \<^verbatim>\<open>pd.to_numeric\<close> raises on it: for a label of the data set the run ends at line 168
  with \<^verbatim>\<open>TypeError\<close>, before any call to scipy and without a report. No coefficient
  is produced.
\<close>

theorem equal_columns_raise:
  "columns_named df c \<noteq> [] \<Longrightarrow> analyze lib df c c = ([], Inl TypeError)"
  by (simp add: analyze_def clean_equal_columns)

theorem equal_columns_raise_witness:
  "columns_named single_df ''score'' \<noteq> [] \<and>
   analyze sample_lib single_df ''score'' ''score'' = ([], Inl TypeError)"
proof -
  have c: "columns_named single_df ''score'' \<noteq> []" by code_simp
  from equal_columns_raise [OF c, of sample_lib] c show ?thesis by simp
qed

end
